theory Spec2Isabelle
  imports Complex_Main "HOL-Library.AList" "HOL-Library.Word"
begin

section \<open>JavaScript values\<close>

text \<open>
  The plugin handles untyped data: tool parameters arrive as \<open>Record<string, unknown>\<close>,
  backend responses are whatever \<open>response.json()\<close> yields. A value is one of the JSON
  shapes, \<open>undefined\<close>, or one of the two kinds of value that every plain object inherits
  from its prototype: a built-in function, given by its name, and the object
  \<open>Object.prototype\<close> itself. An object is its list of own properties in insertion
  order; numbers are the finite numbers, identified with the rational they denote.
  Strings are byte strings: a character outside ASCII is written as its UTF-8 bytes.
\<close>

datatype jsval =
    JUndefined
  | JNull
  | JBool bool
  | JNum rat
  | JStr string
  | JArr "jsval list"
  | JObj "(string \<times> jsval) list"
  | JFunction string
  | JObjectPrototype

type_synonym obj = "(string \<times> jsval) list"

text \<open>
  The own property of an object, \<open>undefined\<close> when there is none. This is \<open>obj[k]\<close> and
  \<open>obj.k\<close> for every name \<open>k\<close> that \<open>Object.prototype\<close> does not define, which holds of
  all the names that the handlers and the client read by a literal.
\<close>

definition own_prop :: "obj \<Rightarrow> string \<Rightarrow> jsval" where
  "own_prop ob k = (case map_of ob k of Some v \<Rightarrow> v | None \<Rightarrow> JUndefined)"

text \<open>
  What a plain object inherits from \<open>Object.prototype\<close>: the function \<open>Object\<close> as
  \<open>constructor\<close>, the prototype itself through the accessor \<open>__proto__\<close>, and the ten
  built-in methods.
\<close>

definition object_prototype_methods :: "string list" where
  "object_prototype_methods =
     [''__defineGetter__'', ''__defineSetter__'', ''hasOwnProperty'', ''__lookupGetter__'',
      ''__lookupSetter__'', ''isPrototypeOf'', ''propertyIsEnumerable'', ''toString'',
      ''valueOf'', ''toLocaleString'']"

definition prototype_names :: "string list" where
  "prototype_names = ''constructor'' # ''__proto__'' # object_prototype_methods"

definition inherited :: "string \<Rightarrow> jsval" where
  "inherited k =
     (if k = ''constructor'' then JFunction ''Object''
      else if k = ''__proto__'' then JObjectPrototype
      else if k \<in> set object_prototype_methods then JFunction k
      else JUndefined)"

text \<open>
  \<open>obj[k]\<close> for an arbitrary name on a plain object: the own property when there is
  one, whatever its value, and the inherited member otherwise.
\<close>

definition get_member :: "obj \<Rightarrow> string \<Rightarrow> jsval" where
  "get_member ob k = (case map_of ob k of Some v \<Rightarrow> v | None \<Rightarrow> inherited k)"

text \<open>
  \<open>Object.keys(obj)\<close>, in insertion order. JavaScript lists the keys that are array
  indices first; nothing here depends on the order, only on the set of keys and on
  their number.
\<close>

definition object_keys :: "obj \<Rightarrow> string list" where
  "object_keys ob = map fst ob"

text \<open>Truthiness, as \<open>||\<close>, \<open>!\<close> and \<open>if\<close> test it.\<close>

fun truthy :: "jsval \<Rightarrow> bool" where
  "truthy JUndefined = False"
| "truthy JNull = False"
| "truthy (JBool b) = b"
| "truthy (JNum r) = (r \<noteq> 0)"
| "truthy (JStr s) = (s \<noteq> [])"
| "truthy (JArr xs) = True"
| "truthy (JObj fs) = True"
| "truthy (JFunction f) = True"
| "truthy JObjectPrototype = True"

text \<open>\<open>a || b\<close> and \<open>a ?? b\<close>.\<close>

definition js_or :: "jsval \<Rightarrow> jsval \<Rightarrow> jsval" where
  "js_or a b = (if truthy a then a else b)"


section \<open>Thrown values\<close>

text \<open>
  \<open>class CynapsApiError extends Error\<close> (errors.ts): the message, the HTTP-like status,
  and the optional machine code and error id (\<open>JUndefined\<close> when not given).
\<close>

record CynapsApiError =
  message :: string
  status :: int
  code :: jsval
  errorId :: jsval

text \<open>
  What a \<open>throw\<close> carries and a \<open>catch\<close> receives: a \<open>CynapsApiError\<close>, another native
  \<open>Error\<close> (only its message is ever read), or any other value.
\<close>

datatype thrown =
    ThrownApi CynapsApiError
  | ThrownError string
  | ThrownValue jsval

section \<open>The host's conversions\<close>

text \<open>
  Some built-ins of the JavaScript host are not code of this repository and depend on
  floating-point formatting, on parsing or on the engine. They are parameters of the
  model: \<open>Number.prototype.toString\<close>; the answer to \<open>Number(s) > 0\<close> for a string \<open>s\<close>;
  \<open>JSON.stringify(v, null, 2)\<close>; the source text that \<open>String\<close> gives for a built-in
  function; the result of calling a built-in function, other than \<open>toString\<close> and
  \<open>valueOf\<close>, on an object without arguments (it returns a value or throws an Error of
  some message); and the message of the RangeError of \<open>AbortSignal.timeout\<close>.
\<close>

record host =
  number_to_string :: "rat \<Rightarrow> string"
  string_gt_zero :: "string \<Rightarrow> bool"
  json_stringify :: "jsval \<Rightarrow> string"
  function_source :: "string \<Rightarrow> string"
  call_builtin :: "string \<Rightarrow> obj \<Rightarrow> string + jsval"
  range_error_text :: "int \<Rightarrow> string"

text \<open>The string of a primitive value; an object, an array or a function has none.\<close>

fun primitive_string :: "host \<Rightarrow> jsval \<Rightarrow> string option" where
  "primitive_string h JUndefined = Some ''undefined''"
| "primitive_string h JNull = Some ''null''"
| "primitive_string h (JBool b) = Some (if b then ''true'' else ''false'')"
| "primitive_string h (JNum r) = Some (number_to_string h r)"
| "primitive_string h (JStr s) = Some s"
| "primitive_string h v = None"

text \<open>
  Calling a built-in function on a plain object: \<open>Object.prototype.toString\<close> answers
  \<open>[object Object]\<close>, \<open>Object.prototype.valueOf\<close> answers the object, the others are the
  host's.
\<close>

definition call_function :: "host \<Rightarrow> string \<Rightarrow> obj \<Rightarrow> thrown + jsval" where
  "call_function h f this =
     (if f = ''toString'' then Inr (JStr ''[object Object]'')
      else if f = ''valueOf'' then Inr (JObj this)
      else (case call_builtin h f this of
              Inl m \<Rightarrow> Inl (ThrownError m)
            | Inr r \<Rightarrow> Inr r))"

text \<open>
  The conversion of an object to a primitive value (OrdinaryToPrimitive). The methods
  are tried in the given order; a member that is not a function is skipped, and so is
  a result that is not primitive (\<open>conv\<close> has no answer for it). When no method is left
  the conversion throws a TypeError (the message is the one of V8).
\<close>

fun to_primitive :: "(jsval \<Rightarrow> 'a option) \<Rightarrow> host \<Rightarrow> obj \<Rightarrow> string list \<Rightarrow> thrown + 'a" where
  "to_primitive conv h ob [] = Inl (ThrownError ''Cannot convert object to primitive value'')"
| "to_primitive conv h ob (name # names) =
     (case get_member ob name of
        JFunction f \<Rightarrow>
          (case call_function h f ob of
             Inl t \<Rightarrow> Inl t
           | Inr r \<Rightarrow>
              (case conv r of
                 Some a \<Rightarrow> Inr a
               | None \<Rightarrow> to_primitive conv h ob names))
      | _ \<Rightarrow> to_primitive conv h ob names)"

text \<open>
  \<open>String(v)\<close>, template-literal interpolation and the conversion of the message in
  the Error constructor. An array is the comma-joined strings of its elements, with
  \<open>null\<close> and \<open>undefined\<close> elements empty; an object is converted through its
  \<open>toString\<close>, then its \<open>valueOf\<close>. The conversion can throw.
\<close>

fun ToString :: "host \<Rightarrow> jsval \<Rightarrow> thrown + string"
  and join_elems :: "host \<Rightarrow> jsval list \<Rightarrow> thrown + string"
where
  "ToString h JUndefined = Inr ''undefined''"
| "ToString h JNull = Inr ''null''"
| "ToString h (JBool b) = Inr (if b then ''true'' else ''false'')"
| "ToString h (JNum r) = Inr (number_to_string h r)"
| "ToString h (JStr s) = Inr s"
| "ToString h (JArr xs) = join_elems h xs"
| "ToString h (JObj fs) = to_primitive (primitive_string h) h fs [''toString'', ''valueOf'']"
| "ToString h (JFunction f) = Inr (function_source h f)"
| "ToString h JObjectPrototype = Inr ''[object Object]''"
| "join_elems h [] = Inr []"
| "join_elems h [x] = (if x = JUndefined \<or> x = JNull then Inr [] else ToString h x)"
| "join_elems h (x # y # ys) =
     (case (if x = JUndefined \<or> x = JNull then Inr [] else ToString h x) of
        Inl t \<Rightarrow> Inl t
      | Inr a \<Rightarrow>
         (case join_elems h (y # ys) of
            Inl t \<Rightarrow> Inl t
          | Inr b \<Rightarrow> Inr (a @ '','' @ b)))"


text \<open>Decimal digits of an integer, as JavaScript prints an integer-valued number.\<close>

fun show_nat :: "nat \<Rightarrow> string" where
  "show_nat n =
     (if n < 10 then [''0123456789'' ! n]
      else show_nat (n div 10) @ [''0123456789'' ! (n mod 10)])"

declare show_nat.simps [simp del]

definition show_int :: "int \<Rightarrow> string" where
  "show_int i = (if i < 0 then ''-'' @ show_nat (nat (- i)) else show_nat (nat i))"

text \<open>\<open>s.includes(t)\<close>.\<close>

fun str_includes :: "string \<Rightarrow> string \<Rightarrow> bool" where
  "str_includes [] t = (t = [])"
| "str_includes (c # cs) t = (take (length t) (c # cs) = t \<or> str_includes cs t)"

text \<open>The em dash of the source's message texts, in UTF-8.\<close>

definition em_dash :: string where
  "em_dash = [CHR 0xE2, CHR 0x80, CHR 0x94]"

section \<open>Error Classifier (errors.ts)\<close>

definition isClientError :: "CynapsApiError \<Rightarrow> bool" where
  "isClientError e = (status e \<ge> 400 \<and> status e < 500)"

definition isServerError :: "CynapsApiError \<Rightarrow> bool" where
  "isServerError e = (status e \<ge> 500)"

definition isAuthError :: "CynapsApiError \<Rightarrow> bool" where
  "isAuthError e = (status e = 401 \<or> status e = 403)"

definition isRateLimited :: "CynapsApiError \<Rightarrow> bool" where
  "isRateLimited e = (status e = 429)"

definition auth_sentence :: string where
  "auth_sentence = ''Having trouble connecting '' @ em_dash @ '' try again in a moment.''"

definition server_sentence :: string where
  "server_sentence = ''Something went wrong on our end. Please try again.''"

definition userMessage :: "CynapsApiError \<Rightarrow> string" where
  "userMessage e =
     (if isAuthError e then auth_sentence
      else if isRateLimited e then message e
      else if isServerError e then server_sentence
      else message e)"

text \<open>
  \<open>wrapError(err)\<close>. In the last case \<open>String(err)\<close> is evaluated first: when the value has
  no conversion to a string, \<open>wrapError\<close> throws that TypeError and returns nothing.
\<close>

definition wrapError :: "host \<Rightarrow> thrown \<Rightarrow> thrown + CynapsApiError" where
  "wrapError h err =
     (case err of
        ThrownApi e \<Rightarrow> Inr e
      | ThrownError m \<Rightarrow>
          Inr \<lparr>message = m, status = 500, code = JStr ''PLUGIN_ERROR'', errorId = JUndefined\<rparr>
      | ThrownValue v \<Rightarrow>
          (case ToString h v of
             Inl t \<Rightarrow> Inl t
           | Inr s \<Rightarrow>
               Inr \<lparr>message = s, status = 500, code = JStr ''UNKNOWN_ERROR'',
                    errorId = JUndefined\<rparr>))"

text \<open>What \<open>catch (err) { throw wrapError(err) }\<close> throws.\<close>

definition rethrow_wrapped :: "host \<Rightarrow> thrown \<Rightarrow> thrown" where
  "rethrow_wrapped h err = (case wrapError h err of Inl t \<Rightarrow> t | Inr e \<Rightarrow> ThrownApi e)"

text \<open>
  An object with its prototype, where the prototype matters: the default
  \<open>Object.prototype\<close>, \<open>null\<close>, or another value that is an object.
\<close>

datatype proto = ObjectPrototype | NullPrototype | ValuePrototype jsval

record js_object =
  obj_own :: obj
  obj_proto :: proto

definition empty_object :: js_object where
  "empty_object = \<lparr>obj_own = [], obj_proto = ObjectPrototype\<rparr>"

text \<open>\<open>typeof v === 'object' || typeof v === 'function'\<close>, and not \<open>null\<close>.\<close>

fun is_object :: "jsval \<Rightarrow> bool" where
  "is_object (JArr xs) = True"
| "is_object (JObj fs) = True"
| "is_object (JFunction f) = True"
| "is_object JObjectPrototype = True"
| "is_object v = False"

text \<open>
  Whether the name \<open>__proto__\<close> reaches the accessor of \<open>Object.prototype\<close>: the object has
  no own property of that name, its prototype is not \<open>null\<close>, and its prototype, when
  that is a parsed object, has no own property of that name either.
\<close>

definition reaches_proto_accessor :: "js_object \<Rightarrow> bool" where
  "reaches_proto_accessor out =
     (map_of (obj_own out) ''__proto__'' = None \<and>
      (case obj_proto out of
         ObjectPrototype \<Rightarrow> True
       | NullPrototype \<Rightarrow> False
       | ValuePrototype (JObj fs) \<Rightarrow> map_of fs ''__proto__'' = None
       | ValuePrototype v \<Rightarrow> True))"

text \<open>
  The assignment \<open>out[k] = v\<close>. It replaces the value of an own key in place and appends
  a new key otherwise, except for the name \<open>__proto__\<close> when it reaches the accessor:
  there the setter runs, which makes \<open>v\<close> the prototype when \<open>v\<close> is an object or \<open>null\<close>
  and does nothing otherwise. No own property is created then.
\<close>

definition set_member :: "js_object \<Rightarrow> string \<Rightarrow> jsval \<Rightarrow> js_object" where
  "set_member out k v =
     (if k = ''__proto__'' \<and> reaches_proto_accessor out
      then (if v = JNull then out\<lparr>obj_proto := NullPrototype\<rparr>
            else if v = JObjectPrototype then out\<lparr>obj_proto := ObjectPrototype\<rparr>
            else if is_object v then out\<lparr>obj_proto := ValuePrototype v\<rparr>
            else out)
      else out\<lparr>obj_own := AList.update k v (obj_own out)\<rparr>)"

section \<open>Parameter Sanitizer (pick.ts)\<close>

text \<open>
  The inputs considered are plain data objects. An own property \<open>__proto__\<close> of the
  input, as \<open>JSON.parse\<close> creates it, may hold any data but not a function: a result
  with a function as its prototype would inherit read-only properties, which are not
  modelled.
\<close>

definition proto_is_data :: "obj \<Rightarrow> bool" where
  "proto_is_data ob =
     (case map_of ob ''__proto__'' of Some (JFunction f) \<Rightarrow> False | _ \<Rightarrow> True)"

text \<open>
  \<open>for (const k of keys) if (obj[k] !== undefined) out[k] = obj[k]\<close>, starting from the
  empty object. The input is a plain object: \<open>obj[k]\<close> is its own property or the
  member it inherits.
\<close>

fun pick_loop :: "obj \<Rightarrow> string list \<Rightarrow> js_object \<Rightarrow> js_object" where
  "pick_loop ob [] out = out"
| "pick_loop ob (k # ks) out =
     pick_loop ob ks
       (if get_member ob k \<noteq> JUndefined then set_member out k (get_member ob k) else out)"

definition pick_object :: "obj \<Rightarrow> string list \<Rightarrow> js_object" where
  "pick_object ob ks = pick_loop ob ks empty_object"

text \<open>
  The own properties of the result: what \<open>Object.keys\<close> lists and \<open>JSON.stringify\<close>
  sends.
\<close>

definition pick :: "obj \<Rightarrow> string list \<Rightarrow> obj" where
  "pick ob ks = obj_own (pick_object ob ks)"

text \<open>
  The same function with object identity made explicit. A store is the list of the
  objects allocated so far and a reference is an index into it. \<open>const out = {}\<close>
  allocates the next reference; the loop writes through \<open>out\<close> only. The input is to be
  a plain object: for a reference that is not allocated or an object with another
  prototype there is no result.
\<close>

type_synonym store = "js_object list"

fun pick_fill :: "store \<Rightarrow> nat \<Rightarrow> nat \<Rightarrow> string list \<Rightarrow> store" where
  "pick_fill st a out [] = st"
| "pick_fill st a out (k # ks) =
     pick_fill
       (if get_member (obj_own (st ! a)) k \<noteq> JUndefined
        then st[out := set_member (st ! out) k (get_member (obj_own (st ! a)) k)] else st)
       a out ks"

definition pick_ref :: "store \<Rightarrow> nat \<Rightarrow> string list \<Rightarrow> (store \<times> nat) option" where
  "pick_ref st a ks =
     (if a < length st \<and> obj_proto (st ! a) = ObjectPrototype
      then Some (pick_fill (st @ [empty_object]) a (length st) ks, length st)
      else None)"

section \<open>Authenticated Caller (api-client.ts)\<close>

subsection \<open>Requests, responses and the network\<close>

text \<open>
  A \<open>Response\<close> as the client reads it: the status, the headers (a \<open>Headers\<close> object
  keeps one entry per lower-cased name) and the outcome of \<open>response.json()\<close>, which
  either rejects with an Error of some message or yields the parsed value.
\<close>

record response =
  resp_status :: int
  resp_headers :: "(string \<times> string) list"
  resp_json :: "string + jsval"

definition ok :: "response \<Rightarrow> bool" where
  "ok r = (200 \<le> resp_status r \<and> resp_status r \<le> 299)"

definition lower_char :: "char \<Rightarrow> char" where
  "lower_char c =
     (case map_of (zip ''ABCDEFGHIJKLMNOPQRSTUVWXYZ'' ''abcdefghijklmnopqrstuvwxyz'') c of
        Some l \<Rightarrow> l
      | None \<Rightarrow> c)"

text \<open>\<open>response.headers.get(name)\<close>: the lookup ignores the case of the name.\<close>

definition headers_get :: "response \<Rightarrow> string \<Rightarrow> string option" where
  "headers_get r name = map_of (resp_headers r) (map lower_char name)"

datatype fetch_outcome = Resolved response | Rejected thrown

record request =
  req_url :: string
  req_params :: "(string \<times> string) list"
  req_method :: string
  req_headers :: "(string \<times> string) list"
  req_body :: "jsval option"

text \<open>
  The network is a parameter: it answers each \<open>fetch\<close> from the requests issued so far,
  the current one last. The effects of a handler are the requests it issued and the
  delays it slept, in order, and the number of values it drew from
  \<open>crypto.randomUUID()\<close>.
\<close>

type_synonym world = "request list \<Rightarrow> fetch_outcome"

record io =
  requests :: "request list"
  sleeps :: "int list"
  uuid_draws :: nat

subsection \<open>The client\<close>

record CynapsConfig =
  supabaseUrl :: string
  supabaseAnonKey :: string
  cfg_serviceRoleKey :: string
  cfg_userId :: string
  cfg_agentId :: "string option"

record client =
  baseUrl :: string
  anonKey :: string
  serviceRoleKey :: string
  userId :: string
  agentId :: "string option"

text \<open>\<open>s.replace(/\/$/, '')\<close>: one trailing slash is removed.\<close>

definition strip_trailing_slash :: "string \<Rightarrow> string" where
  "strip_trailing_slash s = (if s \<noteq> [] \<and> last s = CHR ''/'' then butlast s else s)"

definition new_client :: "CynapsConfig \<Rightarrow> client" where
  "new_client config =
     \<lparr>baseUrl = strip_trailing_slash (supabaseUrl config),
      anonKey = supabaseAnonKey config,
      serviceRoleKey = cfg_serviceRoleKey config,
      userId = cfg_userId config,
      agentId = cfg_agentId config\<rparr>"

text \<open>
  \<open>ctx?.agentId ? { ...config, agentId: ctx.agentId } : config\<close>; the context's agent
  id is \<open>None\<close> when the context or the field is missing.
\<close>

definition fromContext :: "CynapsConfig \<Rightarrow> string option \<Rightarrow> client" where
  "fromContext config ctx_agentId =
     new_client
       (case ctx_agentId of
          None \<Rightarrow> config
        | Some a \<Rightarrow> if a \<noteq> [] then config\<lparr>cfg_agentId := Some a\<rparr> else config)"

text \<open>
  What the process gives at request time: the two environment variables and the
  successive values of \<open>crypto.randomUUID()\<close>.
\<close>

record process_env =
  OPENCLAW_AGENT_ID :: "string option"
  CYNAPS3_AGENT_ID :: "string option"
  randomUUID :: "nat \<Rightarrow> string"

definition nonempty :: "string option \<Rightarrow> string option" where
  "nonempty s = (case s of None \<Rightarrow> None | Some a \<Rightarrow> if a = [] then None else Some a)"

text \<open>\<open>buildHeaders()\<close>, drawing the \<open>n\<close>-th random identifier.\<close>

definition buildHeaders :: "process_env \<Rightarrow> client \<Rightarrow> nat \<Rightarrow> (string \<times> string) list" where
  "buildHeaders env c n =
     (let headers =
        [(''Content-Type'', ''application/json''),
         (''apikey'', anonKey c),
         (''Authorization'', ''Bearer '' @ serviceRoleKey c),
         (''X-CLI-User-Id'', userId c),
         (''X-Request-ID'', randomUUID env n)]
      in case nonempty (agentId c) of
           Some a \<Rightarrow> AList.update ''X-Agent-Id'' a headers
         | None \<Rightarrow>
            (case nonempty (OPENCLAW_AGENT_ID env) of
               Some a \<Rightarrow> AList.update ''X-Agent-Id'' a headers
             | None \<Rightarrow>
                (case nonempty (CYNAPS3_AGENT_ID env) of
                   Some a \<Rightarrow> AList.update ''X-Agent-Id'' a headers
                 | None \<Rightarrow> headers)))"

subsection \<open>Reading the error body\<close>

text \<open>
  \<open>v.k\<close> for a name \<open>k\<close> that is neither an array index, nor \<open>length\<close>, nor a member of a
  prototype, which holds of every name this program reads. On \<open>null\<close> and \<open>undefined\<close>
  the read throws a TypeError (the message is the one of V8); strings, numbers,
  booleans and arrays have no such property.
\<close>

definition quote :: string where
  "quote = [CHR 0x27]"

fun read_field :: "jsval \<Rightarrow> string \<Rightarrow> thrown + jsval" where
  "read_field JUndefined k =
     Inl (ThrownError (''Cannot read properties of undefined (reading '' @ quote @ k @ quote @ '')''))"
| "read_field JNull k =
     Inl (ThrownError (''Cannot read properties of null (reading '' @ quote @ k @ quote @ '')''))"
| "read_field (JObj fs) k = Inr (own_prop fs k)"
| "read_field v k = Inr JUndefined"

text \<open>
  \<open>new CynapsApiError(message, status, code, errorId)\<close>: the Error constructor turns the
  message into a string, and throws when the message has no such conversion.
\<close>

definition new_CynapsApiError ::
  "host \<Rightarrow> jsval \<Rightarrow> int \<Rightarrow> jsval \<Rightarrow> jsval \<Rightarrow> thrown + CynapsApiError"
where
  "new_CynapsApiError h m s c i =
     (case ToString h m of
        Inl t \<Rightarrow> Inl t
      | Inr msg \<Rightarrow> Inr \<lparr>message = msg, status = s, code = c, errorId = i\<rparr>)"

text \<open>
  \<open>await response.json().catch(() => ({ error: `HTTP ${response.status}` }))\<close>
\<close>

definition http_text :: "response \<Rightarrow> string" where
  "http_text r = ''HTTP '' @ show_int (resp_status r)"

definition error_body :: "response \<Rightarrow> jsval" where
  "error_body r =
     (case resp_json r of
        Inl m \<Rightarrow> JObj [(''error'', JStr (http_text r))]
      | Inr v \<Rightarrow> v)"

text \<open>
  The typed error that \<open>call\<close> builds from a response that is not ok. Reading a field of
  a \<open>null\<close> body throws instead, and so does the constructor when the \<open>error\<close> field has
  no conversion to a string.
\<close>

definition api_error :: "host \<Rightarrow> response \<Rightarrow> thrown + CynapsApiError" where
  "api_error h r =
     (let errorBody = error_body r in
      case read_field errorBody ''error'' of
        Inl t \<Rightarrow> Inl t
      | Inr e \<Rightarrow>
         (case read_field errorBody ''code'' of
            Inl t \<Rightarrow> Inl t
          | Inr c \<Rightarrow>
             (case read_field errorBody ''errorId'' of
                Inl t \<Rightarrow> Inl t
              | Inr i \<Rightarrow>
                 new_CynapsApiError h (js_or e (JStr (http_text r))) (resp_status r) c i)))"

subsection \<open>Retry-After\<close>

text \<open>
  The value of a header is a byte string, each byte one character: the white space that
  \<open>parseInt\<close> skips is then tab, line feed, vertical tab, form feed, carriage return,
  space and the no-break space.
\<close>

definition is_space :: "char \<Rightarrow> bool" where
  "is_space c =
     (c \<in> set [CHR 0x09, CHR 0x0A, CHR 0x0B, CHR 0x0C, CHR 0x0D, CHR '' '', CHR 0xA0])"

definition is_digit :: "char \<Rightarrow> bool" where
  "is_digit c = (c \<in> set ''0123456789'')"

definition digit_value :: "char \<Rightarrow> int" where
  "digit_value c =
     (case map_of (zip ''0123456789'' [0, 1, 2, 3, 4, 5, 6, 7, 8, 9]) c of
        Some d \<Rightarrow> d
      | None \<Rightarrow> 0)"

fun digits_value :: "int \<Rightarrow> string \<Rightarrow> int" where
  "digits_value acc [] = acc"
| "digits_value acc (c # cs) = digits_value (acc * 10 + digit_value c) cs"

text \<open>
  The double nearest to a natural number, ties to the even significand: a number of at
  most 53 bits is exact, a longer one keeps its 53 leading bits, rounded. From
  \<open>2 ^ 1024 - 2 ^ 970\<close> on the result reaches \<open>2 ^ 1024\<close>, which stands for infinity.
\<close>

fun bit_length :: "nat \<Rightarrow> nat" where
  "bit_length n = (if n = 0 then 0 else Suc (bit_length (n div 2)))"

declare bit_length.simps [simp del]

definition round_to_double :: "nat \<Rightarrow> nat" where
  "round_to_double n =
     (if bit_length n \<le> 53 then n
      else (let e = bit_length n - 53;
                q = n div 2 ^ e;
                r = n mod 2 ^ e;
                half = 2 ^ (e - 1)
            in (if r > half \<or> (r = half \<and> odd q) then q + 1 else q) * 2 ^ e))"

text \<open>
  \<open>parseInt(s, 10)\<close>: leading white space is skipped, a sign is read, then the longest
  run of decimal digits, whose value is rounded to a double; without a digit the result
  is NaN.
\<close>

datatype parsed = NaN | Infinite | Finite int

definition parseInt :: "string \<Rightarrow> parsed" where
  "parseInt s =
     (let t = dropWhile is_space s;
          neg = (t \<noteq> [] \<and> hd t = CHR ''-'');
          u = (if t \<noteq> [] \<and> (hd t = CHR ''-'' \<or> hd t = CHR ''+'') then tl t else t);
          ds = takeWhile is_digit u;
          n = int (round_to_double (nat (digits_value 0 ds)))
      in if ds = [] then NaN
         else if n \<ge> 2 ^ 1024 then Infinite
         else Finite (if neg then - n else n))"

definition parseRetryAfter :: "response \<Rightarrow> int" where
  "parseRetryAfter r =
     (case headers_get r ''Retry-After'' of
        None \<Rightarrow> 5
      | Some header \<Rightarrow>
          if header = [] then 5
          else (case parseInt header of
                  Finite seconds \<Rightarrow> min seconds 60
                | _ \<Rightarrow> 5))"

text \<open>
  \<open>seconds * 1_000\<close> on doubles: the product is rounded once more. A result of
  magnitude \<open>2 ^ 1024\<close> or more stands for the infinity of its sign.
\<close>

definition times_1000 :: "int \<Rightarrow> int" where
  "times_1000 seconds =
     (if seconds < 0 then - int (round_to_double (nat (- seconds * 1000)))
      else int (round_to_double (nat (seconds * 1000))))"

subsection \<open>call\<close>

definition DEFAULT_TIMEOUT_MS :: int where
  "DEFAULT_TIMEOUT_MS = 30000"

definition MAX_RETRIES :: int where
  "MAX_RETRIES = 2"

definition RETRY_DELAY_MS :: int where
  "RETRY_DELAY_MS = 1000"

text \<open>
  The options of \<open>call\<close>, each of which may be missing. The time limit and the retry
  budget are taken to be integers.
\<close>

record call_options =
  opt_method :: "string option"
  opt_timeout :: "int option"
  opt_retries :: "int option"

text \<open>
  One pass through the body of the \<open>for\<close> loop ends in one of three ways: the call
  returns a value, the call throws, or the loop goes on with a new \<open>lastError\<close>, after a
  sleep when attempts remain.
\<close>

datatype step = Return jsval | Throw thrown | Continue CynapsApiError "int option"

text \<open>
  The \<open>try\<close> block from the answer of \<open>fetch\<close> on, up to the point where it returns,
  throws or falls through.
\<close>

definition try_block :: "host \<Rightarrow> int \<Rightarrow> int \<Rightarrow> fetch_outcome \<Rightarrow> thrown + step" where
  "try_block h maxRetries attempt outcome =
     (case outcome of
        Rejected err \<Rightarrow> Inl err
      | Resolved r \<Rightarrow>
          if ok r then
            (case resp_json r of
               Inl m \<Rightarrow> Inl (ThrownError m)
             | Inr v \<Rightarrow> Inr (Return v))
          else
            (case api_error h r of
               Inl t \<Rightarrow> Inl t
             | Inr apiError \<Rightarrow>
                 if isClientError apiError then Inl (ThrownApi apiError)
                 else Inr (Continue apiError
                   (if attempt < maxRetries
                    then Some (if isRateLimited apiError
                               then times_1000 (parseRetryAfter r)
                               else RETRY_DELAY_MS * 2 ^ nat attempt)
                    else None))))"

text \<open>
  \<open>new CynapsApiError(message.includes('timeout') ? `Request timed out after ${timeout}ms`
  : message, 0, 'NETWORK_ERROR')\<close>
\<close>

definition network_error :: "int \<Rightarrow> string \<Rightarrow> CynapsApiError" where
  "network_error timeout msg =
     \<lparr>message =
        (if str_includes msg ''timeout''
         then ''Request timed out after '' @ show_int timeout @ ''ms'' else msg),
      status = 0, code = JStr ''NETWORK_ERROR'', errorId = JUndefined\<rparr>"

text \<open>
  The \<open>catch\<close> block. A typed error is thrown on. For any other value the message is
  \<open>err instanceof Error ? err.message : String(err)\<close>; when \<open>String(err)\<close> throws, that
  TypeError leaves the \<open>catch\<close> block and the call.
\<close>

definition catch_block :: "host \<Rightarrow> int \<Rightarrow> int \<Rightarrow> int \<Rightarrow> thrown \<Rightarrow> step" where
  "catch_block h timeout maxRetries attempt err =
     (case err of
        ThrownApi e \<Rightarrow> Throw (ThrownApi e)
      | ThrownError m \<Rightarrow>
          Continue (network_error timeout m)
            (if attempt < maxRetries then Some (RETRY_DELAY_MS * 2 ^ nat attempt) else None)
      | ThrownValue v \<Rightarrow>
          (case ToString h v of
             Inl t \<Rightarrow> Throw t
           | Inr m \<Rightarrow>
               Continue (network_error timeout m)
                 (if attempt < maxRetries then Some (RETRY_DELAY_MS * 2 ^ nat attempt)
                  else None)))"

definition attempt_step :: "host \<Rightarrow> int \<Rightarrow> int \<Rightarrow> int \<Rightarrow> fetch_outcome \<Rightarrow> step" where
  "attempt_step h timeout maxRetries attempt outcome =
     (case try_block h maxRetries attempt outcome of
        Inr s \<Rightarrow> s
      | Inl err \<Rightarrow> catch_block h timeout maxRetries attempt err)"

definition retries_exhausted :: CynapsApiError where
  "retries_exhausted =
     \<lparr>message = ''Request failed after retries'', status = 500,
      code = JUndefined, errorId = JUndefined\<rparr>"

definition do_sleep :: "int option \<Rightarrow> io \<Rightarrow> io" where
  "do_sleep d st = (case d of None \<Rightarrow> st | Some ms \<Rightarrow> st\<lparr>sleeps := sleeps st @ [ms]\<rparr>)"

definition do_fetch :: "request \<Rightarrow> io \<Rightarrow> io" where
  "do_fetch req st = st\<lparr>requests := requests st @ [req]\<rparr>"

definition draw_uuid :: "io \<Rightarrow> io" where
  "draw_uuid st = st\<lparr>uuid_draws := Suc (uuid_draws st)\<rparr>"

text \<open>
  \<open>AbortSignal.timeout(timeout)\<close> is evaluated in the \<open>try\<close> block before \<open>fetch\<close> is
  called. The runtime accepts an integer from 0 to \<open>2 ^ 32 - 1\<close> and throws a RangeError
  for any other: then no request is made and the \<open>catch\<close> block takes the RangeError.
\<close>

definition timeout_accepted :: "int \<Rightarrow> bool" where
  "timeout_accepted t = (0 \<le> t \<and> t \<le> 4294967295)"

text \<open>One pass through the body of the loop, with its effects.\<close>

definition attempt_io ::
  "host \<Rightarrow> world \<Rightarrow> request \<Rightarrow> int \<Rightarrow> int \<Rightarrow> int \<Rightarrow> io \<Rightarrow> step \<times> io"
where
  "attempt_io h w req timeout maxRetries attempt st =
     (if timeout_accepted timeout
      then (attempt_step h timeout maxRetries attempt (w (requests (do_fetch req st))),
            do_fetch req st)
      else (catch_block h timeout maxRetries attempt (ThrownError (range_error_text h timeout)),
            st))"

text \<open>
  \<open>for (let attempt = 0; attempt <= maxRetries; attempt++)\<close>, then
  \<open>throw lastError ?? new CynapsApiError('Request failed after retries', 500)\<close>.
\<close>

function call_loop ::
  "host \<Rightarrow> world \<Rightarrow> request \<Rightarrow> int \<Rightarrow> int \<Rightarrow> int \<Rightarrow> CynapsApiError option \<Rightarrow> io
   \<Rightarrow> (thrown + jsval) \<times> io"
where
  "call_loop h w req timeout maxRetries attempt lastError st =
     (if attempt \<le> maxRetries then
        (case attempt_io h w req timeout maxRetries attempt st of
           (Return v, st1) \<Rightarrow> (Inr v, st1)
         | (Throw t, st1) \<Rightarrow> (Inl t, st1)
         | (Continue e d, st1) \<Rightarrow>
             call_loop h w req timeout maxRetries (attempt + 1) (Some e) (do_sleep d st1))
      else
        (Inl (ThrownApi (case lastError of Some e \<Rightarrow> e | None \<Rightarrow> retries_exhausted)), st))"
  by pat_completeness auto
termination
  by (relation "measure (\<lambda>(h, w, req, timeout, maxRetries, attempt, lastError, st).
        nat (maxRetries + 1 - attempt))") auto

declare call_loop.simps [simp del]

text \<open>The request of \<open>call\<close>; the headers are built once, before the loop.\<close>

definition call_request ::
  "process_env \<Rightarrow> client \<Rightarrow> nat \<Rightarrow> string \<Rightarrow> obj \<Rightarrow> call_options \<Rightarrow> request"
where
  "call_request env c n functionName body options =
     (let url = baseUrl c @ ''/functions/v1/'' @ functionName;
          method = (case opt_method options of None \<Rightarrow> ''POST'' | Some m \<Rightarrow> m);
          headers = buildHeaders env c n
      in \<lparr>req_url = url, req_params = [], req_method = method, req_headers = headers,
          req_body = (if method \<noteq> ''GET'' then Some (JObj body) else None)\<rparr>)"

definition call_timeout :: "call_options \<Rightarrow> int" where
  "call_timeout options =
     (case opt_timeout options of None \<Rightarrow> DEFAULT_TIMEOUT_MS | Some t \<Rightarrow> t)"

definition call_retries :: "call_options \<Rightarrow> int" where
  "call_retries options =
     (case opt_retries options of None \<Rightarrow> MAX_RETRIES | Some n \<Rightarrow> n)"

definition call ::
  "host \<Rightarrow> process_env \<Rightarrow> client \<Rightarrow> world \<Rightarrow> string \<Rightarrow> obj \<Rightarrow> call_options \<Rightarrow> io
   \<Rightarrow> (thrown + jsval) \<times> io"
where
  "call h env c w functionName body options st =
     call_loop h w (call_request env c (uuid_draws st) functionName body options)
       (call_timeout options) (call_retries options) 0 None (draw_uuid st)"

definition no_options :: call_options where
  "no_options = \<lparr>opt_method = None, opt_timeout = None, opt_retries = None\<rparr>"

subsection \<open>rpc\<close>

definition rpc ::
  "host \<Rightarrow> process_env \<Rightarrow> client \<Rightarrow> world \<Rightarrow> string \<Rightarrow> obj \<Rightarrow> int option \<Rightarrow> io
   \<Rightarrow> (thrown + jsval) \<times> io"
where
  "rpc h env c w method_name params timeout st =
     call h env c w ''agent-tools''
       [(''method'', JStr method_name), (''params'', JObj params)]
       \<lparr>opt_method = None, opt_timeout = timeout, opt_retries = None\<rparr> st"

subsection \<open>query\<close>

record query_options =
  q_method :: "string option"
  q_body :: "obj option"

text \<open>
  The typed error of \<open>query\<close> is built without the error id. \<open>query\<close> has no \<open>try\<close>:
  a rejected \<open>fetch\<close>, a failing field read, a failing constructor and a failing
  \<open>json()\<close> leave it as thrown. Its time limit is the constant \<open>DEFAULT_TIMEOUT_MS\<close>,
  which the runtime accepts.
\<close>

definition query_error :: "host \<Rightarrow> response \<Rightarrow> thrown" where
  "query_error h r =
     (let errorBody = error_body r in
      case read_field errorBody ''error'' of
        Inl t \<Rightarrow> t
      | Inr e \<Rightarrow>
         (case read_field errorBody ''code'' of
            Inl t \<Rightarrow> t
          | Inr c \<Rightarrow>
             (case new_CynapsApiError h (js_or e (JStr (http_text r))) (resp_status r) c
                     JUndefined of
                Inl t \<Rightarrow> t
              | Inr apiError \<Rightarrow> ThrownApi apiError)))"

definition query ::
  "host \<Rightarrow> process_env \<Rightarrow> client \<Rightarrow> world \<Rightarrow> string \<Rightarrow> (string \<times> string) list
   \<Rightarrow> query_options \<Rightarrow> io \<Rightarrow> (thrown + jsval) \<times> io"
where
  "query h env c w table params options st =
     (let url = baseUrl c @ ''/functions/v1/skill-api/'' @ table;
          search = foldl (\<lambda>acc (k, v). AList.update k v acc) [] params;
          method = (case q_method options of None \<Rightarrow> ''GET'' | Some m \<Rightarrow> m);
          headers0 = buildHeaders env c (uuid_draws st);
          headers = (if method = ''POST'' \<or> method = ''PATCH''
                     then AList.update ''Prefer'' ''return=representation'' headers0
                     else headers0);
          req = \<lparr>req_url = url, req_params = search, req_method = method,
                 req_headers = headers,
                 req_body = (case q_body options of None \<Rightarrow> None | Some b \<Rightarrow> Some (JObj b))\<rparr>;
          st1 = do_fetch req (draw_uuid st)
      in case w (requests st1) of
           Rejected err \<Rightarrow> (Inl err, st1)
         | Resolved r \<Rightarrow>
             if \<not> ok r then (Inl (query_error h r), st1)
             else if resp_status r = 204 \<or> headers_get r ''content-length'' = Some ''0''
             then (Inr (JArr []), st1)
             else (case resp_json r of
                     Inl m \<Rightarrow> (Inl (ThrownError m), st1)
                   | Inr v \<Rightarrow> (Inr v, st1)))"

section \<open>Tool results and the confirmation envelope (result.ts, types.ts)\<close>

text \<open>
  \<open>jsonResult(payload)\<close> is \<open>{ content: [{ type: 'text', text }], details: payload }\<close>
  with \<open>text = JSON.stringify(payload, null, 2)\<close>: one text entry and the payload itself.
\<close>

record AgentToolResult =
  content_text :: string
  details :: jsval

definition jsonResult :: "host \<Rightarrow> jsval \<Rightarrow> AgentToolResult" where
  "jsonResult h payload = \<lparr>content_text = json_stringify h payload, details = payload\<rparr>"

text \<open>\<open>typeof v === 'object'\<close> holds of \<open>null\<close>, of arrays and of objects.\<close>

fun typeof_object :: "jsval \<Rightarrow> bool" where
  "typeof_object JNull = True"
| "typeof_object (JArr xs) = True"
| "typeof_object (JObj fs) = True"
| "typeof_object JObjectPrototype = True"
| "typeof_object v = False"

definition isConfirmationResponse :: "jsval \<Rightarrow> bool" where
  "isConfirmationResponse v =
     (typeof_object v \<and> v \<noteq> JNull \<and>
      (case read_field v ''confirmation_required'' of
         Inl t \<Rightarrow> False
       | Inr x \<Rightarrow> x = JBool True))"

text \<open>
  The own enumerable properties that \<open>{ ...v }\<close> copies: those of an object, the
  indexed elements of an array or of a string, none of any other value.
\<close>

fun spread :: "jsval \<Rightarrow> obj" where
  "spread (JObj fs) = fs"
| "spread (JArr xs) = zip (map show_nat [0..<length xs]) xs"
| "spread (JStr s) = zip (map show_nat [0..<length s]) (map (\<lambda>c. JStr [c]) s)"
| "spread v = []"

section \<open>Write tools (musicmation-write.ts)\<close>

text \<open>
  The four handlers have one body and differ in the RPC method, the allow-list and the
  instruction text:
  \<^verbatim>\<open>
  try {
    const result = await client.rpc(method, pick(params, allowed))
    if (isConfirmationResponse(result)) {
      return jsonResult({ ...result, instruction })
    }
    return jsonResult(result)
  } catch (err) { throw wrapError(err) }
  \<close>
\<close>

definition write_tool_execute ::
  "host \<Rightarrow> process_env \<Rightarrow> client \<Rightarrow> world \<Rightarrow> string \<Rightarrow> string list \<Rightarrow> string \<Rightarrow> obj \<Rightarrow> io
   \<Rightarrow> (thrown + AgentToolResult) \<times> io"
where
  "write_tool_execute h env c w method_name allowed instruction params st =
     (case rpc h env c w method_name (pick params allowed) None st of
        (Inl err, st1) \<Rightarrow> (Inl (rethrow_wrapped h err), st1)
      | (Inr result, st1) \<Rightarrow>
          if isConfirmationResponse result
          then (Inr (jsonResult h
                  (JObj (AList.update ''instruction'' (JStr instruction) (spread result)))), st1)
          else (Inr (jsonResult h result), st1))"


definition create_album_instruction :: string where
  "create_album_instruction =
     ''Present this album creation to the user. Call again with the confirmation_token when approved.''"

definition set_dramaturgy_instruction :: string where
  "set_dramaturgy_instruction =
     ''Present this dramaturgy plan to the user. Call again with the confirmation_token when approved.''"

definition bulk_rename_instruction :: string where
  "bulk_rename_instruction =
     ''Present these renames to the user. Call again with the confirmation_token when approved.''"


definition musicmation_create_album_execute ::
  "host \<Rightarrow> process_env \<Rightarrow> client \<Rightarrow> world \<Rightarrow> obj \<Rightarrow> io
   \<Rightarrow> (thrown + AgentToolResult) \<times> io"
where
  "musicmation_create_album_execute h env c w =
     write_tool_execute h env c w ''create-album''
       [''title'', ''track_ids'', ''project_id'', ''genre'', ''description'', ''confirmation_token'']
       create_album_instruction"

definition musicmation_set_dramaturgy_execute ::
  "host \<Rightarrow> process_env \<Rightarrow> client \<Rightarrow> world \<Rightarrow> obj \<Rightarrow> io
   \<Rightarrow> (thrown + AgentToolResult) \<times> io"
where
  "musicmation_set_dramaturgy_execute h env c w =
     write_tool_execute h env c w ''set-dramaturgy'' [''album_id'', ''tracks'', ''confirmation_token'']
       set_dramaturgy_instruction"

definition musicmation_bulk_rename_execute ::
  "host \<Rightarrow> process_env \<Rightarrow> client \<Rightarrow> world \<Rightarrow> obj \<Rightarrow> io
   \<Rightarrow> (thrown + AgentToolResult) \<times> io"
where
  "musicmation_bulk_rename_execute h env c w =
     write_tool_execute h env c w ''bulk-rename-tracks'' [''renames'', ''confirmation_token'']
       bulk_rename_instruction"

section \<open>Generate tool (musicmation-generate.ts)\<close>

text \<open>\<open>items?.[0]\<close> and \<open>x?.id\<close> on plain data.\<close>

fun first_elem :: "jsval \<Rightarrow> jsval" where
  "first_elem (JArr xs) = (case xs of [] \<Rightarrow> JUndefined | x # _ \<Rightarrow> x)"
| "first_elem (JObj fs) = own_prop fs ''0''"
| "first_elem (JStr s) = (case s of [] \<Rightarrow> JUndefined | ch # _ \<Rightarrow> JStr [ch])"
| "first_elem v = JUndefined"


















section \<open>Content tools (musicmation-content.ts)\<close>

definition updatableFields :: "string list" where
  "updatableFields =
     [''project_id'', ''title'', ''status'', ''transcript'', ''transcript_draft'',
      ''short_summary'', ''copyright'', ''artist'', ''composer'', ''genre'', ''mood'',
      ''tone'', ''instrument'', ''album'', ''style_d'', ''style_e'', ''style_f'',
      ''sub_cluster'', ''type'', ''series_name'', ''part'',
      ''image_url'', ''audio_url'', ''rating'',
      ''shortlisted'', ''selected_for_upload'', ''done_flag'']"

text \<open>
  The handler fills \<open>body\<close> with the loop of \<open>pick\<close>, written inline over
  \<open>updatableFields\<close>, and returns before any request when \<open>body\<close> has no key. The
  filter \<open>`eq.${itemId}`\<close> is built after that test and can throw.
\<close>

definition update_item_try ::
  "host \<Rightarrow> process_env \<Rightarrow> client \<Rightarrow> world \<Rightarrow> obj \<Rightarrow> io \<Rightarrow> (thrown + AgentToolResult) \<times> io"
where
  "update_item_try h env c w params st =
     (let itemId = own_prop params ''item_id'';
          body = obj_own (pick_loop params updatableFields empty_object)
      in if length (object_keys body) = 0
         then (Inr (jsonResult h (JObj [(''message'', JStr ''No fields to update.'')])), st)
         else
           (case ToString h itemId of
              Inl t \<Rightarrow> (Inl t, st)
            | Inr idText \<Rightarrow>
               (case query h env c w ''sunoma_items'' [(''id'', ''eq.'' @ idText)]
                       \<lparr>q_method = Some ''PATCH'', q_body = Some body\<rparr> st of
                  (Inl t, st1) \<Rightarrow> (Inl t, st1)
                | (Inr items, st1) \<Rightarrow>
                   (let item = first_elem items in
                    (Inr (jsonResult h (JObj
                       [(''item'', js_or item (JObj [(''id'', itemId)])),
                        (''message'', JStr ''Item updated successfully.'')])), st1)))))"

definition musicmation_update_item_execute ::
  "host \<Rightarrow> process_env \<Rightarrow> client \<Rightarrow> world \<Rightarrow> obj \<Rightarrow> io
   \<Rightarrow> (thrown + AgentToolResult) \<times> io"
where
  "musicmation_update_item_execute h env c w params st =
     (case update_item_try h env c w params st of
        (Inr res, st1) \<Rightarrow> (Inr res, st1)
      | (Inl err, st1) \<Rightarrow> (Inl (rethrow_wrapped h err), st1))"

section \<open>Fixtures (test/fixtures)\<close>

text \<open>
  The configuration of the test suite (\<open>MOCK_CONFIG\<close>), its stub of \<open>crypto.randomUUID\<close>,
  and a host for running the model on data whose numbers are integers: such a number
  prints as its decimal digits. The built-in methods answer as they do on an object
  that keeps the inherited \<open>toString\<close>, called without an argument: the three tests
  answer \<open>false\<close> and the two lookups \<open>undefined\<close>, \<open>toLocaleString\<close> answers as
  \<open>toString\<close>, \<open>Object\<close> a new object, and the two definers throw. The message of the
  RangeError is the one of Node, without the digit grouping of a long number. The
  comparison of a string with 0 and the JSON text are not exercised by the examples
  and are left trivial.
\<close>

definition MOCK_CONFIG :: CynapsConfig where
  "MOCK_CONFIG =
     \<lparr>supabaseUrl = ''https://test-project.supabase.co'',
      supabaseAnonKey = ''eyJhbGciOiJIUzI1NiIsInR5cCI6IkpXVCJ9.test-key'',
      cfg_serviceRoleKey = ''eyJhbGciOiJIUzI1NiIsInR5cCI6IkpXVCJ9.service-role-key'',
      cfg_userId = ''user_test_123'',
      cfg_agentId = None\<rparr>"

definition test_env :: process_env where
  "test_env =
     \<lparr>OPENCLAW_AGENT_ID = None, CYNAPS3_AGENT_ID = None, randomUUID = (\<lambda>n. ''test-uuid'')\<rparr>"

definition test_builtin :: "string \<Rightarrow> obj \<Rightarrow> string + jsval" where
  "test_builtin f this =
     (if f \<in> set [''hasOwnProperty'', ''isPrototypeOf'', ''propertyIsEnumerable'']
      then Inr (JBool False)
      else if f \<in> set [''__lookupGetter__'', ''__lookupSetter__''] then Inr JUndefined
      else if f = ''toLocaleString'' then Inr (JStr ''[object Object]'')
      else if f = ''Object'' then Inr (JObj [])
      else Inl (''Object.prototype.'' @ f @ '': Expecting function''))"

definition test_host :: host where
  "test_host =
     \<lparr>number_to_string = (\<lambda>r. show_int \<lfloor>r\<rfloor>),
      string_gt_zero = (\<lambda>s. False),
      json_stringify = (\<lambda>v. []),
      function_source = (\<lambda>f. ''function '' @ f @ ''() { [native code] }''),
      call_builtin = test_builtin,
      range_error_text = (\<lambda>t.
        ''The value of \"delay\" is out of range. It must be >= 0 && <= 4294967295. Received ''
        @ show_int t)\<rparr>"

definition test_client :: client where
  "test_client = fromContext MOCK_CONFIG (Some ''test-agent'')"

definition io0 :: io where
  "io0 = \<lparr>requests = [], sleeps = [], uuid_draws = 0\<rparr>"

text \<open>
  \<open>mockJsonResponse(body, status)\<close> of the client's tests, and a scripted \<open>fetch\<close>: the
  \<open>i\<close>-th request is answered by the \<open>i\<close>-th entry of the script and every later one by
  the default (\<open>mockResolvedValueOnce\<close> followed by \<open>mockResolvedValue\<close>).
\<close>

definition mockJsonResponse :: "jsval \<Rightarrow> int \<Rightarrow> response" where
  "mockJsonResponse body st = \<lparr>resp_status = st, resp_headers = [], resp_json = Inr body\<rparr>"

definition mock_fetch :: "fetch_outcome list \<Rightarrow> fetch_outcome \<Rightarrow> world" where
  "mock_fetch script dflt rs =
     (if rs \<noteq> [] \<and> length rs \<le> length script then script ! (length rs - 1) else dflt)"


section \<open>Properties of the Error Classifier\<close>

lemma primitive_ToString: "primitive_string h v = Some s \<Longrightarrow> ToString h v = Inr s"
  by (cases v) auto

lemma plain_object_ToString:
  "map_of fs ''toString'' = None \<Longrightarrow> ToString h (JObj fs) = Inr ''[object Object]''"
  by (simp add: get_member_def inherited_def object_prototype_methods_def call_function_def)

text \<open>
  The object \<open>{ toString: 1 }\<close>, as \<open>JSON.parse\<close> yields it, has no conversion to a
  string: its own \<open>toString\<close> is not a function and the inherited \<open>valueOf\<close> answers the
  object itself. For this value the error wrapper throws and produces no typed error.
\<close>

theorem wrapError_throws_without_string_coercion:
  "wrapError test_host (ThrownValue (JObj [(''toString'', JNum 1)]))
     = Inl (ThrownError ''Cannot convert object to primitive value'')"
  by (simp add: wrapError_def get_member_def inherited_def object_prototype_methods_def
      call_function_def)

text \<open>
  Claim C7, as amended. An already typed error is returned as it is, so that whenever
  the wrapper returns, wrapping its result again returns the same error. A native
  Error gives a typed error with the same message, status 500 and machine code
  PLUGIN_ERROR. Any other value that has a string coercion gives a typed error whose
  message is that coercion, with status 500 and machine code UNKNOWN_ERROR: this covers
  every primitive value, and every object without an own \<open>toString\<close>, whose coercion is
  \<open>[object Object]\<close>. For a value that has no string coercion the wrapper throws the
  TypeError of the coercion and produces no typed error.
\<close>

theorem wrapError_idempotent_where_coercible:
  "wrapError h (ThrownApi e) = Inr e
   \<and> (wrapError h x = Inr e' \<longrightarrow> wrapError h (ThrownApi e') = wrapError h x)
   \<and> wrapError h (ThrownError m)
       = Inr \<lparr>message = m, status = 500, code = JStr ''PLUGIN_ERROR'', errorId = JUndefined\<rparr>
   \<and> (ToString h v = Inr s \<longrightarrow>
        wrapError h (ThrownValue v)
          = Inr \<lparr>message = s, status = 500, code = JStr ''UNKNOWN_ERROR'',
                 errorId = JUndefined\<rparr>)
   \<and> (primitive_string h p = Some ps \<longrightarrow>
        wrapError h (ThrownValue p)
          = Inr \<lparr>message = ps, status = 500, code = JStr ''UNKNOWN_ERROR'',
                 errorId = JUndefined\<rparr>)
   \<and> (map_of fs ''toString'' = None \<longrightarrow>
        wrapError h (ThrownValue (JObj fs))
          = Inr \<lparr>message = ''[object Object]'', status = 500, code = JStr ''UNKNOWN_ERROR'',
                 errorId = JUndefined\<rparr>)
   \<and> (ToString h u = Inl t \<longrightarrow> wrapError h (ThrownValue u) = Inl t)"
proof -
  have typed: "wrapError h (ThrownApi e) = Inr e" for e
    by (simp add: wrapError_def)
  have native: "wrapError h (ThrownError m)
       = Inr \<lparr>message = m, status = 500, code = JStr ''PLUGIN_ERROR'', errorId = JUndefined\<rparr>"
    by (simp add: wrapError_def)
  have other: "wrapError h (ThrownValue v)
          = Inr \<lparr>message = s, status = 500, code = JStr ''UNKNOWN_ERROR'',
                 errorId = JUndefined\<rparr>" if "ToString h v = Inr s" for v s
    using that by (simp add: wrapError_def)
  have throws: "wrapError h (ThrownValue u) = Inl t" if "ToString h u = Inl t"
    using that by (simp add: wrapError_def)
  show ?thesis
    using typed native other [OF primitive_ToString] other [OF plain_object_ToString] other
      throws
    by simp
qed

theorem wrapError_idempotent_where_coercible_witness:
  "wrapError test_host (ThrownApi
      \<lparr>message = ''Not found'', status = 404, code = JStr ''NOT_FOUND'', errorId = JUndefined\<rparr>)
     = Inr \<lparr>message = ''Not found'', status = 404, code = JStr ''NOT_FOUND'',
            errorId = JUndefined\<rparr>
   \<and> wrapError test_host (ThrownError ''something broke'')
     = Inr \<lparr>message = ''something broke'', status = 500, code = JStr ''PLUGIN_ERROR'',
            errorId = JUndefined\<rparr>
   \<and> wrapError test_host (ThrownApi
        \<lparr>message = ''something broke'', status = 500, code = JStr ''PLUGIN_ERROR'',
         errorId = JUndefined\<rparr>)
     = wrapError test_host (ThrownError ''something broke'')
   \<and> ToString test_host (JStr ''string error'') = Inr ''string error''
   \<and> wrapError test_host (ThrownValue (JStr ''string error''))
     = Inr \<lparr>message = ''string error'', status = 500, code = JStr ''UNKNOWN_ERROR'',
            errorId = JUndefined\<rparr>
   \<and> primitive_string test_host JNull = Some ''null''
   \<and> wrapError test_host (ThrownValue JNull)
     = Inr \<lparr>message = ''null'', status = 500, code = JStr ''UNKNOWN_ERROR'',
            errorId = JUndefined\<rparr>
   \<and> map_of [(''reason'', JStr ''x'')] ''toString'' = None
   \<and> wrapError test_host (ThrownValue (JObj [(''reason'', JStr ''x'')]))
     = Inr \<lparr>message = ''[object Object]'', status = 500, code = JStr ''UNKNOWN_ERROR'',
            errorId = JUndefined\<rparr>
   \<and> ToString test_host (JArr [JObj [(''toString'', JNull), (''valueOf'', JBool True)]])
     = Inl (ThrownError ''Cannot convert object to primitive value'')
   \<and> wrapError test_host
        (ThrownValue (JArr [JObj [(''toString'', JNull), (''valueOf'', JBool True)]]))
     = Inl (ThrownError ''Cannot convert object to primitive value'')"
  using wrapError_idempotent_where_coercible
    [of test_host
        "\<lparr>message = ''Not found'', status = 404, code = JStr ''NOT_FOUND'',
          errorId = JUndefined\<rparr>"
        "ThrownError ''something broke''"
        "\<lparr>message = ''something broke'', status = 500, code = JStr ''PLUGIN_ERROR'',
          errorId = JUndefined\<rparr>"
        "''something broke''" "JStr ''string error''" "''string error''" JNull "''null''"
        "[(''reason'', JStr ''x'')]"
        "JArr [JObj [(''toString'', JNull), (''valueOf'', JBool True)]]"
        "ThrownError ''Cannot convert object to primitive value''"]
  by (simp add: get_member_def)

text \<open>
  Claim C8. The display message of a typed error is a fixed sentence, whatever the raw
  message, when the status is 401 or 403 or at least 500; it is the raw message itself
  when the status is 429 or any other status from 400 to 499.
\<close>

theorem userMessage_by_status:
  "(status e = 401 \<or> status e = 403 \<longrightarrow> userMessage e = auth_sentence)
   \<and> (500 \<le> status e \<longrightarrow> userMessage e = server_sentence)
   \<and> (status e = 429 \<longrightarrow> userMessage e = message e)
   \<and> (400 \<le> status e \<and> status e < 500 \<and> status e \<noteq> 401 \<and> status e \<noteq> 403
        \<longrightarrow> userMessage e = message e)"
  by (simp add: userMessage_def isAuthError_def isRateLimited_def isServerError_def)

theorem userMessage_by_status_witness:
  "userMessage \<lparr>message = ''JWT expired blah internal'', status = 401, code = JUndefined,
      errorId = JUndefined\<rparr> = auth_sentence
   \<and> userMessage \<lparr>message = ''Deno panic at line 42'', status = 500, code = JUndefined,
      errorId = JUndefined\<rparr> = server_sentence
   \<and> userMessage \<lparr>message = ''Rate limit exceeded'', status = 429, code = JUndefined,
      errorId = JUndefined\<rparr> = ''Rate limit exceeded''
   \<and> userMessage \<lparr>message = ''Invalid track_id'', status = 400, code = JUndefined,
      errorId = JUndefined\<rparr> = ''Invalid track_id''"
  using userMessage_by_status [of "\<lparr>message = ''JWT expired blah internal'', status = 401,
          code = JUndefined, errorId = JUndefined\<rparr>"]
        userMessage_by_status [of "\<lparr>message = ''Deno panic at line 42'', status = 500,
          code = JUndefined, errorId = JUndefined\<rparr>"]
        userMessage_by_status [of "\<lparr>message = ''Rate limit exceeded'', status = 429,
          code = JUndefined, errorId = JUndefined\<rparr>"]
        userMessage_by_status [of "\<lparr>message = ''Invalid track_id'', status = 400,
          code = JUndefined, errorId = JUndefined\<rparr>"]
  by simp

section \<open>Properties of the Parameter Sanitizer\<close>

lemma get_member_own:
  "k \<notin> set prototype_names \<Longrightarrow> get_member ob k = own_prop ob k"
  by (simp add: get_member_def own_prop_def inherited_def prototype_names_def
      split: option.splits)

lemma get_member_inherited_defined:
  "k \<in> set prototype_names \<Longrightarrow> inherited k \<noteq> JUndefined"
  by (auto simp: inherited_def prototype_names_def)

lemma get_member_defined_prototype_name:
  "k \<in> set prototype_names \<Longrightarrow>
   get_member ob k \<noteq> JUndefined \<longleftrightarrow> map_of ob k \<noteq> Some JUndefined"
  using get_member_inherited_defined [of k]
  by (auto simp: get_member_def split: option.splits)

lemma own_prop_defined_iff:
  "own_prop ob k \<noteq> JUndefined \<longleftrightarrow> (\<exists>v. map_of ob k = Some v \<and> v \<noteq> JUndefined)"
  by (auto simp: own_prop_def split: option.splits)

lemma own_prop_defined_key:
  "own_prop ob k \<noteq> JUndefined \<Longrightarrow> k \<in> set (object_keys ob)"
  by (auto simp: own_prop_def object_keys_def split: option.splits dest: map_of_SomeD intro: rev_image_eqI)

lemma own_set_member_other:
  "k \<noteq> ''__proto__'' \<Longrightarrow> obj_own (set_member out k v) = AList.update k v (obj_own out)"
  by (simp add: set_member_def)

lemma own_set_member:
  "obj_own (set_member out k v) = obj_own out
   \<or> obj_own (set_member out k v) = AList.update k v (obj_own out)"
  by (simp add: set_member_def)

lemma map_of_own_set_member_other:
  "k' \<noteq> ''__proto__'' \<Longrightarrow>
   map_of (obj_own (set_member out k v)) k' =
     (if k' = k then Some v else map_of (obj_own out) k')"
  by (auto simp: set_member_def update_conv')

lemma map_of_pick_loop:
  "k \<noteq> ''__proto__'' \<Longrightarrow>
   map_of (obj_own (pick_loop ob ks out)) k =
     (if k \<in> set ks \<and> get_member ob k \<noteq> JUndefined then Some (get_member ob k)
      else map_of (obj_own out) k)"
  by (induction ks arbitrary: out) (auto simp: map_of_own_set_member_other)

lemma keys_dom: "set (object_keys fs) = dom (map_of fs)"
  by (simp add: object_keys_def dom_map_of_conv_image_fst)

lemma keys_set_member:
  "set (object_keys (obj_own (set_member out k v))) \<subseteq> insert k (set (object_keys (obj_own out)))"
  using own_set_member [of out k v]
  by (auto simp: keys_dom update_conv' split: if_splits)

lemma keys_pick_loop_subset:
  "set (object_keys (obj_own (pick_loop ob ks out)))
     \<subseteq> set ks \<union> set (object_keys (obj_own out))"
proof (induction ks arbitrary: out)
  case Nil
  then show ?case by simp
next
  case (Cons k ks)
  show ?case
    using Cons.IH [of "set_member out k (get_member ob k)"] Cons.IH [of out]
      keys_set_member [of out k "get_member ob k"]
    by (simp split: if_splits) blast+
qed

lemma distinct_set_member:
  "distinct (object_keys (obj_own out)) \<Longrightarrow>
   distinct (object_keys (obj_own (set_member out k v)))"
  using own_set_member [of out k v]
  by (auto simp: object_keys_def distinct_update)

lemma distinct_pick_loop:
  "distinct (object_keys (obj_own out)) \<Longrightarrow>
   distinct (object_keys (obj_own (pick_loop ob ks out)))"
  by (induction ks arbitrary: out) (auto simp: distinct_set_member)

lemma pick_loop_without_proto:
  "''__proto__'' \<notin> set ks \<Longrightarrow>
   obj_proto (pick_loop ob ks out) = obj_proto out
   \<and> map_of (obj_own (pick_loop ob ks out)) ''__proto__'' = map_of (obj_own out) ''__proto__''"
  by (induction ks arbitrary: out) (auto simp: set_member_def update_conv')

lemma set_member_proto_accessor:
  "reaches_proto_accessor out \<Longrightarrow>
   map_of (obj_own (set_member out ''__proto__'' v)) ''__proto__'' = None"
  by (simp add: set_member_def reaches_proto_accessor_def)

lemma pick_loop_proto_once:
  "count_list ks ''__proto__'' \<le> 1 \<Longrightarrow> obj_proto out = ObjectPrototype \<Longrightarrow>
   map_of (obj_own out) ''__proto__'' = None \<Longrightarrow>
   map_of (obj_own (pick_loop ob ks out)) ''__proto__'' = None"
proof (induction ks arbitrary: out)
  case Nil
  then show ?case by simp
next
  case (Cons k ks)
  show ?case
  proof (cases "k = ''__proto__''")
    case True
    with Cons.prems(1) have "''__proto__'' \<notin> set ks"
      by (simp add: count_list_0_iff)
    moreover have "reaches_proto_accessor out"
      using Cons.prems(2,3) by (simp add: reaches_proto_accessor_def)
    ultimately show ?thesis
      using True Cons.prems(3) pick_loop_without_proto [of ks ob]
        set_member_proto_accessor [of out]
      by simp
  next
    case False
    then have "count_list ks ''__proto__'' \<le> 1"
      using Cons.prems(1) by simp
    moreover have "obj_proto (set_member out k v) = ObjectPrototype" for v
      using False Cons.prems(2) by (simp add: set_member_def)
    moreover have "map_of (obj_own (set_member out k v)) ''__proto__'' = None" for v
      using False Cons.prems(3) by (simp add: set_member_def update_conv')
    ultimately show ?thesis
      using Cons.IH Cons.prems(2,3) by simp
  qed
qed

lemma pick_fill_append:
  "a < length st \<Longrightarrow>
   pick_fill (st @ [out]) a (length st) ks = st @ [pick_loop (obj_own (st ! a)) ks out]"
  by (induction ks arbitrary: out) (auto simp: nth_append)

text \<open>
  Two inputs where the keys of the output are not the allow-listed keys of the input.
  For the empty object and the allow-list \<open>constructor\<close>, \<open>toString\<close> the output has both
  keys, holding the built-in functions that the input inherits, although the input has
  no key at all. For the object that \<open>JSON.parse\<close> yields from
  \<open>{"__proto__": {"admin": true}, "mood": "calm"}\<close> and the allow-list \<open>__proto__\<close>, \<open>mood\<close>
  the output lacks the key \<open>__proto__\<close>, which is allow-listed and an own key of the
  input with a value other than \<open>undefined\<close>: the assignment has made the value the
  prototype of the output.
\<close>

theorem pick_inherited_and_proto_keys:
  "object_keys ([] :: obj) = []
   \<and> pick [] [''constructor'', ''toString'']
       = [(''constructor'', JFunction ''Object''), (''toString'', JFunction ''toString'')]
   \<and> object_keys [(''__proto__'', JObj [(''admin'', JBool True)]), (''mood'', JStr ''calm'')]
       = [''__proto__'', ''mood'']
   \<and> own_prop [(''__proto__'', JObj [(''admin'', JBool True)]), (''mood'', JStr ''calm'')]
         ''__proto__'' = JObj [(''admin'', JBool True)]
   \<and> pick_object [(''__proto__'', JObj [(''admin'', JBool True)]), (''mood'', JStr ''calm'')]
         [''__proto__'', ''mood'']
       = \<lparr>obj_own = [(''mood'', JStr ''calm'')],
          obj_proto = ValuePrototype (JObj [(''admin'', JBool True)])\<rparr>
   \<and> object_keys (pick [(''__proto__'', JObj [(''admin'', JBool True)]), (''mood'', JStr ''calm'')]
         [''__proto__'', ''mood'']) = [''mood'']"
  by (simp add: pick_def pick_object_def empty_object_def get_member_def inherited_def
      set_member_def reaches_proto_accessor_def object_prototype_methods_def object_keys_def
      own_prop_def)

text \<open>
  Claim C3, as amended. For every plain input object and every allow-list: every key of
  the output is in the allow-list. An allow-listed name that \<open>Object.prototype\<close> does not
  define is a key of the output exactly when it is a key of the input with a value
  other than \<open>undefined\<close>. An allow-listed name that \<open>Object.prototype\<close> defines, other
  than \<open>__proto__\<close>, is a key of the output unless the input has it as an own key with
  the value \<open>undefined\<close>. When the allow-list names \<open>__proto__\<close> at most once,
  \<open>__proto__\<close> is not a key of the output. Every key of the output other than \<open>__proto__\<close>
  holds what \<open>obj[k]\<close> reads from the input: the input's own value, or the inherited
  member when the input has no own one; an own \<open>null\<close> is copied as \<open>null\<close>. The keys of the
  output are distinct. The result is a newly allocated object, and every object that
  existed before the call, the input among them, is as it was.
\<close>

theorem pick_keys_own_or_inherited:
  assumes "proto_is_data ob"
  shows
  "set (object_keys (pick ob ks)) \<subseteq> set ks
   \<and> (\<forall>k \<in> set ks. k \<notin> set prototype_names \<longrightarrow>
        (k \<in> set (object_keys (pick ob ks))
           \<longleftrightarrow> k \<in> set (object_keys ob) \<and> own_prop ob k \<noteq> JUndefined))
   \<and> (\<forall>k \<in> set ks. k \<in> set prototype_names \<and> k \<noteq> ''__proto__'' \<longrightarrow>
        (k \<in> set (object_keys (pick ob ks)) \<longleftrightarrow> map_of ob k \<noteq> Some JUndefined))
   \<and> (count_list ks ''__proto__'' \<le> 1 \<longrightarrow> ''__proto__'' \<notin> set (object_keys (pick ob ks)))
   \<and> (\<forall>k \<in> set (object_keys (pick ob ks)). k \<noteq> ''__proto__'' \<longrightarrow>
        own_prop (pick ob ks) k = get_member ob k)
   \<and> (\<forall>k. k \<notin> set prototype_names \<longrightarrow> get_member ob k = own_prop ob k)
   \<and> (\<forall>k. map_of ob k = None \<longrightarrow> get_member ob k = inherited k)
   \<and> (\<forall>k \<in> set ks. k \<noteq> ''__proto__'' \<and> map_of ob k = Some JNull \<longrightarrow>
        k \<in> set (object_keys (pick ob ks)) \<and> own_prop (pick ob ks) k = JNull)
   \<and> distinct (object_keys (pick ob ks))
   \<and> (a < length st \<and> st ! a = \<lparr>obj_own = ob, obj_proto = ObjectPrototype\<rparr> \<longrightarrow>
        (\<exists>st'. pick_ref st a ks = Some (st', length st)
           \<and> length st' = Suc (length st)
           \<and> (\<forall>b < length st. st' ! b = st ! b)
           \<and> obj_own (st' ! length st) = pick ob ks))"
proof -
  have m: "map_of (pick ob ks) k =
      (if k \<in> set ks \<and> get_member ob k \<noteq> JUndefined then Some (get_member ob k) else None)"
    if "k \<noteq> ''__proto__''" for k
    using that by (simp add: pick_def pick_object_def map_of_pick_loop empty_object_def)
  have key: "k \<in> set (object_keys (pick ob ks)) \<longleftrightarrow> k \<in> set ks \<and> get_member ob k \<noteq> JUndefined"
    if "k \<noteq> ''__proto__''" for k
    using m [OF that] by (auto simp: keys_dom dom_def)
  have val: "own_prop (pick ob ks) k = get_member ob k"
    if "k \<noteq> ''__proto__''" "k \<in> set (object_keys (pick ob ks))" for k
    using m [OF that(1)] key [OF that(1)] that(2) by (simp add: own_prop_def)
  have not_proto: "k \<noteq> ''__proto__''" if "k \<notin> set prototype_names" for k
    using that by (auto simp: prototype_names_def)
  have 1: "set (object_keys (pick ob ks)) \<subseteq> set ks"
    using keys_pick_loop_subset [of ob ks empty_object]
    by (simp add: pick_def pick_object_def) (simp add: empty_object_def object_keys_def)
  have 2: "\<forall>k \<in> set ks. k \<notin> set prototype_names \<longrightarrow>
        (k \<in> set (object_keys (pick ob ks))
           \<longleftrightarrow> k \<in> set (object_keys ob) \<and> own_prop ob k \<noteq> JUndefined)"
    using key not_proto get_member_own [of _ ob] own_prop_defined_key [of ob] by auto
  have 3: "\<forall>k \<in> set ks. k \<in> set prototype_names \<and> k \<noteq> ''__proto__'' \<longrightarrow>
        (k \<in> set (object_keys (pick ob ks)) \<longleftrightarrow> map_of ob k \<noteq> Some JUndefined)"
    using key get_member_defined_prototype_name [of _ ob] by auto
  have 4: "count_list ks ''__proto__'' \<le> 1 \<longrightarrow> ''__proto__'' \<notin> set (object_keys (pick ob ks))"
    using pick_loop_proto_once [of ks empty_object ob]
    by (simp add: pick_def pick_object_def keys_dom dom_def) (simp add: empty_object_def)
  have 5: "\<forall>k \<in> set (object_keys (pick ob ks)). k \<noteq> ''__proto__'' \<longrightarrow>
        own_prop (pick ob ks) k = get_member ob k"
    using val by simp
  have 6: "\<forall>k. k \<notin> set prototype_names \<longrightarrow> get_member ob k = own_prop ob k"
    using get_member_own by simp
  have 7: "\<forall>k. map_of ob k = None \<longrightarrow> get_member ob k = inherited k"
    by (simp add: get_member_def)
  have 8: "\<forall>k \<in> set ks. k \<noteq> ''__proto__'' \<and> map_of ob k = Some JNull \<longrightarrow>
        k \<in> set (object_keys (pick ob ks)) \<and> own_prop (pick ob ks) k = JNull"
  proof (intro ballI impI)
    fix k assume k: "k \<in> set ks" "k \<noteq> ''__proto__'' \<and> map_of ob k = Some JNull"
    then have g: "get_member ob k = JNull"
      by (simp add: get_member_def)
    with k key [of k] have "k \<in> set (object_keys (pick ob ks))"
      by simp
    with k g val [of k] show "k \<in> set (object_keys (pick ob ks)) \<and> own_prop (pick ob ks) k = JNull"
      by simp
  qed
  have 9: "distinct (object_keys (pick ob ks))"
    unfolding pick_def pick_object_def
    by (rule distinct_pick_loop) (simp add: object_keys_def empty_object_def)
  have 10: "a < length st \<and> st ! a = \<lparr>obj_own = ob, obj_proto = ObjectPrototype\<rparr> \<longrightarrow>
        (\<exists>st'. pick_ref st a ks = Some (st', length st)
           \<and> length st' = Suc (length st)
           \<and> (\<forall>b < length st. st' ! b = st ! b)
           \<and> obj_own (st' ! length st) = pick ob ks)"
    by (simp add: pick_ref_def pick_fill_append pick_def pick_object_def nth_append)
  from 1 2 3 4 5 6 7 8 9 10 show ?thesis
    by blast
qed

theorem pick_keys_own_or_inherited_witness:
  "proto_is_data [(''mood'', JNull), (''genre'', JStr ''rock''), (''energy'', JUndefined),
      (''evil'', JStr ''DROP TABLE''), (''valueOf'', JUndefined)]
   \<and> pick_ref [\<lparr>obj_own = [(''mood'', JNull), (''genre'', JStr ''rock''), (''energy'', JUndefined),
        (''evil'', JStr ''DROP TABLE''), (''valueOf'', JUndefined)],
        obj_proto = ObjectPrototype\<rparr>] 0
        [''genre'', ''mood'', ''energy'', ''tempo'', ''toString'', ''valueOf'', ''__proto__'']
      = Some ([\<lparr>obj_own = [(''mood'', JNull), (''genre'', JStr ''rock''), (''energy'', JUndefined),
                 (''evil'', JStr ''DROP TABLE''), (''valueOf'', JUndefined)],
               obj_proto = ObjectPrototype\<rparr>,
               \<lparr>obj_own = [(''genre'', JStr ''rock''), (''mood'', JNull),
                 (''toString'', JFunction ''toString'')],
               obj_proto = ObjectPrototype\<rparr>], 1)
   \<and> pick [(''mood'', JNull), (''genre'', JStr ''rock''), (''energy'', JUndefined),
        (''evil'', JStr ''DROP TABLE''), (''valueOf'', JUndefined)]
        [''genre'', ''mood'', ''energy'', ''tempo'', ''toString'', ''valueOf'', ''__proto__'']
      = [(''genre'', JStr ''rock''), (''mood'', JNull), (''toString'', JFunction ''toString'')]
   \<and> object_keys (pick [(''mood'', JNull), (''genre'', JStr ''rock''),
        (''energy'', JUndefined), (''evil'', JStr ''DROP TABLE''), (''valueOf'', JUndefined)]
        [''genre'', ''mood'', ''energy'', ''tempo'', ''toString'', ''valueOf'', ''__proto__''])
      = [''genre'', ''mood'', ''toString'']"
  using pick_keys_own_or_inherited
    [of "[(''mood'', JNull), (''genre'', JStr ''rock''), (''energy'', JUndefined),
          (''evil'', JStr ''DROP TABLE''), (''valueOf'', JUndefined)]"
        "[''genre'', ''mood'', ''energy'', ''tempo'', ''toString'', ''valueOf'', ''__proto__'']" 0
        "[\<lparr>obj_own = [(''mood'', JNull), (''genre'', JStr ''rock''), (''energy'', JUndefined),
          (''evil'', JStr ''DROP TABLE''), (''valueOf'', JUndefined)],
          obj_proto = ObjectPrototype\<rparr>]"]
  by (simp add: proto_is_data_def pick_ref_def pick_def pick_object_def empty_object_def
      get_member_def inherited_def set_member_def reaches_proto_accessor_def
      object_prototype_methods_def object_keys_def)

section \<open>Properties of the content tools\<close>

lemma pick_loop_nothing_defined:
  "\<forall>k \<in> set ks. get_member ob k = JUndefined \<Longrightarrow> pick_loop ob ks out = out"
  by (induction ks arbitrary: out) auto

lemma updatableFields_not_inherited:
  "k \<in> set updatableFields \<Longrightarrow> k \<notin> set prototype_names"
  by (auto simp: updatableFields_def prototype_names_def object_prototype_methods_def)

text \<open>
  Claim C10. When the parameters of the update-item tool give no updatable field a
  value other than \<open>undefined\<close>, the handler returns the result
  \<open>No fields to update.\<close> and issues no request and no sleep: the effects after the call
  are the effects before it.
\<close>

theorem update_item_without_fields_no_request:
  assumes "\<forall>k \<in> set updatableFields. own_prop params k = JUndefined"
  shows "musicmation_update_item_execute h env c w params st =
           (Inr (jsonResult h (JObj [(''message'', JStr ''No fields to update.'')])), st)
         \<and> requests (snd (musicmation_update_item_execute h env c w params st)) = requests st"
proof -
  have "\<forall>k \<in> set updatableFields. get_member params k = JUndefined"
    using assms get_member_own [OF updatableFields_not_inherited] by simp
  then have "pick_loop params updatableFields empty_object = empty_object"
    by (rule pick_loop_nothing_defined)
  then show ?thesis
    by (simp add: musicmation_update_item_execute_def update_item_try_def object_keys_def
        empty_object_def)
qed

theorem update_item_without_fields_no_request_witness:
  "list_all (\<lambda>k. own_prop [(''item_id'', JStr ''item_1700000000_0aff007b''),
        (''title'', JUndefined), (''owner_id'', JStr ''attacker'')] k = JUndefined)
      updatableFields
   \<and> musicmation_update_item_execute test_host test_env test_client (\<lambda>rs. Rejected (ThrownError ''unreachable''))
        [(''item_id'', JStr ''item_1700000000_0aff007b''), (''title'', JUndefined),
         (''owner_id'', JStr ''attacker'')] io0 =
       (Inr \<lparr>content_text = [], details = JObj [(''message'', JStr ''No fields to update.'')]\<rparr>,
        \<lparr>requests = [], sleeps = [], uuid_draws = 0\<rparr>)"
proof -
  have h: "\<forall>k \<in> set updatableFields.
      own_prop [(''item_id'', JStr ''item_1700000000_0aff007b''), (''title'', JUndefined),
                (''owner_id'', JStr ''attacker'')] k = JUndefined"
    by (simp add: updatableFields_def own_prop_def)
  show ?thesis
    using h update_item_without_fields_no_request [OF h, of test_host test_env test_client
        "\<lambda>rs. Rejected (ThrownError ''unreachable'')" io0]
    by (simp add: jsonResult_def test_host_def io0_def list_all_iff)
qed

section \<open>Properties of the confirmation gate\<close>






section \<open>Properties of the Authenticated Caller\<close>



lemma api_error_status: "api_error h r = Inr e \<Longrightarrow> status e = resp_status r"
  by (auto simp: api_error_def new_CynapsApiError_def Let_def split: sum.splits)



lemma attempt_step_client_error:
  assumes "api_error h r = Inr e" and "isClientError e"
  shows "attempt_step h t n a (Resolved r) = Throw (ThrownApi e)"
proof -
  have "status e = resp_status r" using assms(1) by (rule api_error_status)
  with assms(2) have "\<not> ok r" by (simp add: isClientError_def ok_def)
  with assms show ?thesis
    by (simp add: attempt_step_def try_block_def catch_block_def)
qed











lemma call_loop_throw:
  assumes "attempt \<le> maxRetries" and "timeout_accepted t"
    and "attempt_step h t maxRetries attempt (w (requests st @ [req])) = Throw x"
  shows "call_loop h w req t maxRetries attempt le st = (Inl x, do_fetch req st)"
  by (subst call_loop.simps) (simp add: assms attempt_io_def do_fetch_def)



text \<open>
  A response whose typed error is built and is a client error ends the call at once,
  at whichever attempt it arrives.
\<close>

lemma call_loop_client_error:
  assumes "attempt \<le> maxRetries" and "timeout_accepted timeout"
    and "w (requests st @ [req]) = Resolved r"
    and "api_error h r = Inr e" and "isClientError e"
  shows "call_loop h w req timeout maxRetries attempt lastError st =
           (Inl (ThrownApi e), st\<lparr>requests := requests st @ [req]\<rparr>)"
  using assms
  by (simp add: call_loop_throw attempt_step_client_error do_fetch_def)

lemma call_client_error_once:
  assumes "w (requests st @ [call_request env c (uuid_draws st) functionName body options])
             = Resolved r"
    and "api_error h r = Inr e" and "isClientError e"
    and "timeout_accepted (call_timeout options)" and "0 \<le> call_retries options"
  shows "call h env c w functionName body options st =
           (Inl (ThrownApi e),
            st\<lparr>requests := requests st
                   @ [call_request env c (uuid_draws st) functionName body options],
               uuid_draws := Suc (uuid_draws st)\<rparr>)"
  using assms
  by (simp add: call_def call_loop_client_error draw_uuid_def)

text \<open>
  Claim C6, evaluated on the code. A 400 response whose body is an object is thrown
  on after the one request. A 400 response whose body is the JSON value \<open>null\<close> is not:
  reading \<open>errorBody.error\<close> throws before the typed error exists, the \<open>catch\<close> block takes
  the TypeError for a network fault, and with the default budget the request is sent
  three times, with the two delays in between, before the call fails with status 0. The
  same happens for a 400 response whose \<open>error\<close> field has no conversion to a string,
  where the constructor of the typed error throws.
\<close>

theorem client_error_with_null_body_is_retried:
  "call test_host test_env test_client
      (mock_fetch [] (Resolved (mockJsonResponse (JObj [(''error'', JStr ''Invalid input'')]) 400)))
      ''agent-tools'' [(''method'', JStr ''test''), (''params'', JObj [])] no_options io0
     = (Inl (ThrownApi \<lparr>message = ''Invalid input'', status = 400, code = JUndefined,
                        errorId = JUndefined\<rparr>),
        \<lparr>requests = [call_request test_env test_client 0 ''agent-tools''
           [(''method'', JStr ''test''), (''params'', JObj [])] no_options],
         sleeps = [], uuid_draws = 1\<rparr>)
   \<and> call test_host test_env test_client
      (mock_fetch [] (Resolved (mockJsonResponse JNull 400)))
      ''agent-tools'' [(''method'', JStr ''test''), (''params'', JObj [])] no_options io0
     = (Inl (ThrownApi
          \<lparr>message = ''Cannot read properties of null (reading '' @ quote @ ''error'' @ quote
             @ '')'',
           status = 0, code = JStr ''NETWORK_ERROR'', errorId = JUndefined\<rparr>),
        \<lparr>requests = replicate 3 (call_request test_env test_client 0 ''agent-tools''
           [(''method'', JStr ''test''), (''params'', JObj [])] no_options),
         sleeps = [1000, 2000], uuid_draws = 1\<rparr>)
   \<and> call test_host test_env test_client
      (mock_fetch [] (Resolved (mockJsonResponse
         (JObj [(''error'', JObj [(''toString'', JNum 1)])]) 400)))
      ''agent-tools'' [(''method'', JStr ''test''), (''params'', JObj [])] no_options io0
     = (Inl (ThrownApi
          \<lparr>message = ''Cannot convert object to primitive value'',
           status = 0, code = JStr ''NETWORK_ERROR'', errorId = JUndefined\<rparr>),
        \<lparr>requests = replicate 3 (call_request test_env test_client 0 ''agent-tools''
           [(''method'', JStr ''test''), (''params'', JObj [])] no_options),
         sleeps = [1000, 2000], uuid_draws = 1\<rparr>)"
  by (simp add: call_def call_retries_def call_timeout_def no_options_def MAX_RETRIES_def
      RETRY_DELAY_MS_def DEFAULT_TIMEOUT_MS_def timeout_accepted_def attempt_io_def
      call_loop.simps [of _ _ _ _ _ 0] call_loop.simps [of _ _ _ _ _ 1]
      call_loop.simps [of _ _ _ _ _ 2] call_loop.simps [of _ _ _ _ _ 3]
      attempt_step_def try_block_def catch_block_def network_error_def
      mock_fetch_def mockJsonResponse_def ok_def api_error_def error_body_def own_prop_def
      new_CynapsApiError_def js_or_def isClientError_def get_member_def inherited_def
      object_prototype_methods_def call_function_def quote_def
      do_fetch_def do_sleep_def draw_uuid_def io0_def numeral_3_eq_3)




lemma rate_limited_is_client_error: "isRateLimited e \<Longrightarrow> isClientError e"
  by (simp add: isRateLimited_def isClientError_def)

text \<open>
  Whatever an attempt receives, when the loop sleeps it sleeps the exponential delay:
  the delay read from \<open>Retry-After\<close> is never used.
\<close>

lemma retry_after_never_used:
  assumes "attempt_step h t n a outcome = Continue e (Some d)"
  shows "d = RETRY_DELAY_MS * 2 ^ nat a"
  using assms
  by (auto simp: attempt_step_def try_block_def catch_block_def Let_def
      dest: rate_limited_is_client_error
      split: fetch_outcome.splits sum.splits if_splits thrown.splits)

lemma bit_length_bound: "n < 2 ^ k \<Longrightarrow> bit_length n \<le> k"
proof (induction k arbitrary: n)
  case 0
  then show ?case by (simp add: bit_length.simps [of 0])
next
  case (Suc k)
  then have "n div 2 < 2 ^ k" by simp
  then have "bit_length (n div 2) \<le> k" by (rule Suc.IH)
  then show ?case by (simp add: bit_length.simps [of n])
qed

lemma round_to_double_exact: "n < 2 ^ 53 \<Longrightarrow> round_to_double n = n"
  using bit_length_bound [of n 53] by (simp add: round_to_double_def)

text \<open>
  Claim C1, evaluated on the code. The default budget leaves two retries and the
  response is a 429 whose \<open>Retry-After\<close> header declares 3 seconds, yet the call fails
  with the typed error after one request and without any sleep: a 429 is a client
  error, and the test for client errors comes before the branch that would wait.
\<close>

theorem rate_limited_call_fails_without_retry:
  "call_retries no_options = 2
   \<and> parseRetryAfter
        \<lparr>resp_status = 429, resp_headers = [(''retry-after'', ''3'')],
         resp_json = Inr (JObj [(''error'', JStr ''Rate limit exceeded''),
                                (''code'', JStr ''RATE_LIMITED'')])\<rparr> = 3
   \<and> call test_host test_env test_client
        (mock_fetch []
          (Resolved
            \<lparr>resp_status = 429, resp_headers = [(''retry-after'', ''3'')],
             resp_json = Inr (JObj [(''error'', JStr ''Rate limit exceeded''),
                                    (''code'', JStr ''RATE_LIMITED'')])\<rparr>))
        ''agent-tools'' [(''method'', JStr ''test''), (''params'', JObj [])] no_options io0
     = (Inl (ThrownApi \<lparr>message = ''Rate limit exceeded'', status = 429,
             code = JStr ''RATE_LIMITED'', errorId = JUndefined\<rparr>),
        \<lparr>requests = [call_request test_env test_client 0 ''agent-tools''
           [(''method'', JStr ''test''), (''params'', JObj [])] no_options],
         sleeps = [], uuid_draws = 1\<rparr>)"
  by (simp add: call_retries_def call_timeout_def no_options_def MAX_RETRIES_def
      DEFAULT_TIMEOUT_MS_def timeout_accepted_def attempt_io_def
      parseRetryAfter_def headers_get_def lower_char_def parseInt_def is_space_def is_digit_def
      digit_value_def round_to_double_exact
      call_def call_loop.simps [of _ _ _ _ _ 0] attempt_step_def try_block_def catch_block_def
      mock_fetch_def ok_def api_error_def error_body_def own_prop_def new_CynapsApiError_def
      js_or_def isClientError_def do_fetch_def draw_uuid_def io0_def)

lemma query_empty_body:
  assumes "w (requests st @ [req]) = Resolved r" and "ok r"
    and "resp_status r = 204 \<or> headers_get r ''content-length'' = Some ''0''"
    and "req = \<lparr>req_url = baseUrl c @ ''/functions/v1/skill-api/'' @ table,
                 req_params = [], req_method = ''DELETE'',
                 req_headers = buildHeaders env c (uuid_draws st), req_body = None\<rparr>"
  shows "fst (query h env c w table [] \<lparr>q_method = Some ''DELETE'', q_body = None\<rparr> st)
           = Inr (JArr [])"
  using assms by (auto simp: query_def do_fetch_def draw_uuid_def Let_def)

text \<open>
  Claim C2, evaluated on the code. A 200 response with \<open>content-length: 0\<close>, whose
  \<open>json()\<close> therefore rejects, makes \<open>query\<close> return the empty array, but makes \<open>call\<close>
  treat the rejection as a network fault: it sends the request three times and then
  fails with a \<open>NETWORK_ERROR\<close> carrying the parser's message.
\<close>

theorem empty_body_call_fails_query_returns_empty:
  "query test_host test_env test_client
        (mock_fetch []
          (Resolved \<lparr>resp_status = 200, resp_headers = [(''content-length'', ''0'')],
                     resp_json = Inl ''Unexpected end of JSON input''\<rparr>))
        ''sunoma_items'' [(''id'', ''eq.trk-1'')] \<lparr>q_method = Some ''DELETE'', q_body = None\<rparr> io0
     = (Inr (JArr []),
        \<lparr>requests =
           [\<lparr>req_url = baseUrl test_client @ ''/functions/v1/skill-api/sunoma_items'',
             req_params = [(''id'', ''eq.trk-1'')], req_method = ''DELETE'',
             req_headers = buildHeaders test_env test_client 0, req_body = None\<rparr>],
         sleeps = [], uuid_draws = 1\<rparr>)
   \<and> call test_host test_env test_client
        (mock_fetch []
          (Resolved \<lparr>resp_status = 200, resp_headers = [(''content-length'', ''0'')],
                     resp_json = Inl ''Unexpected end of JSON input''\<rparr>))
        ''agent-tools'' [(''method'', JStr ''test''), (''params'', JObj [])] no_options io0
     = (Inl (ThrownApi \<lparr>message = ''Unexpected end of JSON input'', status = 0,
             code = JStr ''NETWORK_ERROR'', errorId = JUndefined\<rparr>),
        \<lparr>requests = replicate 3 (call_request test_env test_client 0 ''agent-tools''
           [(''method'', JStr ''test''), (''params'', JObj [])] no_options),
         sleeps = [1000, 2000], uuid_draws = 1\<rparr>)"
  by (simp add: query_def headers_get_def lower_char_def
      call_def call_retries_def call_timeout_def no_options_def MAX_RETRIES_def RETRY_DELAY_MS_def
      DEFAULT_TIMEOUT_MS_def timeout_accepted_def attempt_io_def
      call_loop.simps [of _ _ _ _ _ 0] call_loop.simps [of _ _ _ _ _ 1]
      call_loop.simps [of _ _ _ _ _ 2] call_loop.simps [of _ _ _ _ _ 3]
      attempt_step_def try_block_def catch_block_def network_error_def
      mock_fetch_def ok_def do_fetch_def do_sleep_def draw_uuid_def io0_def numeral_3_eq_3)

text \<open>
  A time limit that the runtime refuses: \<open>AbortSignal.timeout\<close> throws before \<open>fetch\<close> is
  called, so the call issues no request at all, sleeps between its attempts and fails
  with a network error.
\<close>

lemma refused_timeout_no_request:
  assumes "\<not> timeout_accepted (call_timeout options)" and "call_retries options = 1"
  shows "call h env c w functionName body options st =
           (Inl (ThrownApi (network_error (call_timeout options)
                   (range_error_text h (call_timeout options)))),
            st\<lparr>sleeps := sleeps st @ [1000], uuid_draws := Suc (uuid_draws st)\<rparr>)"
  using assms
  by (simp add: call_def call_loop.simps [of _ _ _ _ _ 0] call_loop.simps [of _ _ _ _ _ 1]
      call_loop.simps [of _ _ _ _ _ 2] attempt_io_def catch_block_def do_sleep_def
      draw_uuid_def RETRY_DELAY_MS_def)

section \<open>Properties of the generate tool\<close>








end
